theory Spec2Isabelle
  imports Main
begin

section \<open>Python strings\<close>

text \<open>
  Strings are \<^typ>\<open>string\<close> (lists of characters). The operations of Python's
  \<^verbatim>\<open>str\<close> that \<^verbatim>\<open>version_specifier.py\<close> uses are written out here:
  \<^verbatim>\<open>in\<close>, \<^verbatim>\<open>split\<close>, \<^verbatim>\<open>partition\<close> and \<^verbatim>\<open>join\<close>.
\<close>

definition startswith :: "string \<Rightarrow> string \<Rightarrow> bool" where
  "startswith s sep = (take (length sep) s = sep)"

text \<open>\<^verbatim>\<open>sep in s\<close>: \<open>sep\<close> occurs in \<open>s\<close> as a substring.\<close>

fun str_in :: "string \<Rightarrow> string \<Rightarrow> bool" where
  "str_in sep [] = (sep = [])"
| "str_in sep (c # cs) = (startswith (c # cs) sep \<or> str_in sep cs)"

text \<open>
  \<^verbatim>\<open>s.split(sep)\<close> for a nonempty separator: the leftmost occurrences of \<open>sep\<close>, not
  overlapping, cut the string. \<open>acc\<close> is the piece read so far. (Python raises on an
  empty separator; the source only splits on the literals \<^verbatim>\<open>"~>"\<close> and \<^verbatim>\<open>","\<close>.)
\<close>

function str_split_acc :: "string \<Rightarrow> string \<Rightarrow> string \<Rightarrow> string list" where
  "str_split_acc sep acc [] = [acc]"
| "str_split_acc sep acc (c # cs) =
     (if sep \<noteq> [] \<and> startswith (c # cs) sep
      then acc # str_split_acc sep [] (drop (length sep) (c # cs))
      else str_split_acc sep (acc @ [c]) cs)"
  by pat_completeness auto
termination
  by (relation "measure (\<lambda>(sep, acc, s). length s)") auto

definition str_split :: "string \<Rightarrow> string \<Rightarrow> string list" where
  "str_split sep s = str_split_acc sep [] s"

text \<open>
  \<^verbatim>\<open>s.partition(sep)\<close>: the text before the first occurrence of \<open>sep\<close>, the separator
  itself and the text after it; \<^verbatim>\<open>(s, "", "")\<close> when \<open>sep\<close> does not occur.
\<close>

fun str_partition_acc :: "string \<Rightarrow> string \<Rightarrow> string \<Rightarrow> string \<times> string \<times> string" where
  "str_partition_acc sep acc [] = (acc, [], [])"
| "str_partition_acc sep acc (c # cs) =
     (if startswith (c # cs) sep then (acc, sep, drop (length sep) (c # cs))
      else str_partition_acc sep (acc @ [c]) cs)"

definition str_partition :: "string \<Rightarrow> string \<Rightarrow> string \<times> string \<times> string" where
  "str_partition sep s = str_partition_acc sep [] s"

text \<open>\<^verbatim>\<open>sep.join(xs)\<close> on a list of strings.\<close>

fun str_join :: "string \<Rightarrow> string list \<Rightarrow> string" where
  "str_join sep [] = []"
| "str_join sep [x] = x"
| "str_join sep (x # y # ys) = x @ sep @ str_join sep (y # ys)"

text \<open>Decimal digits, \<^verbatim>\<open>int(s)\<close> on a string of digits and \<^verbatim>\<open>str(n)\<close> (\<^verbatim>\<open>"%d" % n\<close>).\<close>

definition isdigit :: "char \<Rightarrow> bool" where
  "isdigit c = (c \<in> set ''0123456789'')"

definition digit_val :: "char \<Rightarrow> nat" where
  "digit_val c = of_char c - 48"

definition int_of_str :: "string \<Rightarrow> nat" where
  "int_of_str s = foldl (\<lambda>a c. 10 * a + digit_val c) 0 s"

definition digit_chr :: "nat \<Rightarrow> char" where
  "digit_chr d = char_of (48 + d)"

fun str_of_nat :: "nat \<Rightarrow> string" where
  "str_of_nat n = (if n < 10 then [digit_chr n] else str_of_nat (n div 10) @ [digit_chr (n mod 10)])"

declare str_of_nat.simps [simp del]

text \<open>Python's whitespace characters in ASCII (\<^verbatim>\<open>str.isspace\<close>): codes 9 to 13, 28 to 31 and 32.\<close>

definition isspace :: "char \<Rightarrow> bool" where
  "isspace c = (of_char c \<in> set [9, 10, 11, 12, 13, 28, 29, 30, 31, 32 :: nat])"

text \<open>
  Modelled from the spec: \<^verbatim>\<open>remove_spaces\<close> of \<^verbatim>\<open>universal_versions.utils\<close>, which is
  imported by \<^verbatim>\<open>version_specifier.py\<close> and is not among the sources. The spec:
  "whitespace insignificant -- all whitespace is stripped before splitting".
\<close>

definition remove_spaces :: "string \<Rightarrow> string" where
  "remove_spaces s = filter (\<lambda>c. \<not> isspace c) s"

section \<open>Exceptions\<close>

text \<open>
  A call either returns (\<open>Inr\<close>) or raises (\<open>Inl\<close>). The exceptions are Python's classes
  with the message the source builds; \<open>Raised\<close> carries an exception of the modules that
  are not among the sources (\<^verbatim>\<open>version_range\<close>, \<^verbatim>\<open>versions\<close>).
\<close>

datatype 'x error =
    ValueError string
  | IndexError string
  | KeyError nat
  | TypeError string
  | Raised 'x

section \<open>The class \<^verbatim>\<open>Version\<close> of the semver package\<close>

text \<open>
  \<^verbatim>\<open>from semver import Version\<close>: an external library (python-semver 3). The parts
  that \<^verbatim>\<open>find_pessimistic_upper_bound\<close> calls are written out as the library documents
  them: \<^verbatim>\<open>parse\<close>, \<^verbatim>\<open>to_tuple\<close>, the \<^verbatim>\<open>bump_*\<close> methods and \<^verbatim>\<open>__str__\<close>.
\<close>

record Version =
  major :: nat
  minor :: nat
  patch :: nat
  prerelease :: "string option"
  build :: "string option"

definition idchar :: "char \<Rightarrow> bool" where
  "idchar c = (c \<in> set ''0123456789abcdefghijklmnopqrstuvwxyzABCDEFGHIJKLMNOPQRSTUVWXYZ-'')"

text \<open>\<^verbatim>\<open>0|[1-9]\d*\<close>\<close>

definition numeric_id :: "string \<Rightarrow> bool" where
  "numeric_id s = (s = ''0'' \<or> (s \<noteq> [] \<and> hd s \<in> set ''123456789'' \<and> list_all isdigit s))"

text \<open>\<^verbatim>\<open>0|[1-9]\d*|\d*[a-zA-Z-][0-9a-zA-Z-]*\<close>\<close>

definition prerelease_id :: "string \<Rightarrow> bool" where
  "prerelease_id s = (numeric_id s \<or> (list_all idchar s \<and> list_ex (\<lambda>c. \<not> isdigit c) s))"

text \<open>\<^verbatim>\<open>[0-9a-zA-Z-]+\<close>\<close>

definition build_id :: "string \<Rightarrow> bool" where
  "build_id s = (s \<noteq> [] \<and> list_all idchar s)"

text \<open>
  The pattern of \<^verbatim>\<open>Version.parse\<close>, matched from start to end (its \<^verbatim>\<open>$\<close> also matches
  before one final newline): \<^verbatim>\<open>major.minor.patch\<close>, then optionally \<^verbatim>\<open>-\<close> and
  dot-separated prerelease identifiers, then optionally \<^verbatim>\<open>+\<close> and dot-separated build
  identifiers. No character of the core or of a prerelease is \<^verbatim>\<open>+\<close> and no character of
  the core is \<^verbatim>\<open>-\<close>, so the first \<^verbatim>\<open>+\<close> and the first \<^verbatim>\<open>-\<close> before it are the
  separators. The result is the version built from the matched groups, \<open>None\<close> when the
  string does not match.
\<close>

definition Version_match :: "string \<Rightarrow> Version option" where
  "Version_match version =
     (let s = (if version \<noteq> [] \<and> last version = CHR 0x0A then butlast version else version);
          (core_pre, plus, bld) = str_partition ''+'' s;
          (core, dash, pre) = str_partition ''-'' core_pre;
          nums = str_split ''.'' core
      in if length nums = 3 \<and> list_all numeric_id nums
            \<and> (dash = [] \<or> list_all prerelease_id (str_split ''.'' pre))
            \<and> (plus = [] \<or> list_all build_id (str_split ''.'' bld))
         then Some \<lparr>major = int_of_str (nums ! 0), minor = int_of_str (nums ! 1),
                    patch = int_of_str (nums ! 2),
                    prerelease = (if dash = [] then None else Some pre),
                    build = (if plus = [] then None else Some bld)\<rparr>
         else None)"

text \<open>
  \<^verbatim>\<open>Version.parse(version)\<close>: without a match,
  \<^verbatim>\<open>ValueError(f"{version} is not valid SemVer string")\<close>.
\<close>

definition Version_parse :: "string \<Rightarrow> 'x error + Version" where
  "Version_parse version =
     (case Version_match version of
        None \<Rightarrow> Inl (ValueError (version @ '' is not valid SemVer string''))
      | Some v \<Rightarrow> Inr v)"

text \<open>
  The values of a tuple: \<^verbatim>\<open>to_tuple()\<close> is
  \<^verbatim>\<open>(major, minor, patch, prerelease, build)\<close>, three integers and two optional strings.
  \<open>falsy\<close> is Python's \<^verbatim>\<open>not value\<close>.
\<close>

datatype pyval = PInt nat | PStr string | PNone

fun falsy :: "pyval \<Rightarrow> bool" where
  "falsy (PInt n) = (n = 0)"
| "falsy (PStr s) = (s = [])"
| "falsy PNone = True"

definition opt_val :: "string option \<Rightarrow> pyval" where
  "opt_val x = (case x of None \<Rightarrow> PNone | Some s \<Rightarrow> PStr s)"

definition to_tuple :: "Version \<Rightarrow> pyval list" where
  "to_tuple v = [PInt (major v), PInt (minor v), PInt (patch v),
                 opt_val (prerelease v), opt_val (build v)]"

text \<open>\<^verbatim>\<open>__str__\<close>: \<^verbatim>\<open>"%d.%d.%d"\<close>, then \<^verbatim>\<open>-prerelease\<close> and \<^verbatim>\<open>+build\<close> when present.\<close>

definition Version_str :: "Version \<Rightarrow> string" where
  "Version_str v =
     str_of_nat (major v) @ ''.'' @ str_of_nat (minor v) @ ''.'' @ str_of_nat (patch v)
       @ (if falsy (opt_val (prerelease v)) then [] else ''-'' @ the (prerelease v))
       @ (if falsy (opt_val (build v)) then [] else ''+'' @ the (build v))"

text \<open>
  \<^verbatim>\<open>_increment_string\<close>: the last run of digits in the string is replaced by its value
  plus one, \<^verbatim>\<open>string[:max(end - len(next_), start)] + next_ + string[end:]\<close>; a string
  without digits is returned as it is.
\<close>

definition increment_string :: "string \<Rightarrow> string" where
  "increment_string s =
     (let r = dropWhile (\<lambda>c. \<not> isdigit c) (rev s);
          run = rev (takeWhile isdigit r);
          start = length (dropWhile isdigit r);
          end' = start + length run;
          next' = str_of_nat (int_of_str run + 1)
      in if run = [] then s
         else take (max (end' - length next') start) s @ next' @ drop end' s)"

definition bump_major :: "Version \<Rightarrow> Version" where
  "bump_major v = \<lparr>major = major v + 1, minor = 0, patch = 0, prerelease = None, build = None\<rparr>"

definition bump_minor :: "Version \<Rightarrow> Version" where
  "bump_minor v =
     \<lparr>major = major v, minor = minor v + 1, patch = 0, prerelease = None, build = None\<rparr>"

definition bump_patch :: "Version \<Rightarrow> Version" where
  "bump_patch v =
     \<lparr>major = major v, minor = minor v, patch = patch v + 1, prerelease = None, build = None\<rparr>"

text \<open>\<^verbatim>\<open>bump_prerelease(token="rc")\<close> and \<^verbatim>\<open>bump_build(token="build")\<close>, with their default tokens.\<close>

definition bump_prerelease :: "Version \<Rightarrow> Version" where
  "bump_prerelease v =
     \<lparr>major = major v, minor = minor v, patch = patch v,
      prerelease = Some (increment_string (case prerelease v of None \<Rightarrow> ''rc.0'' | Some p \<Rightarrow> p)),
      build = None\<rparr>"

definition bump_build :: "Version \<Rightarrow> Version" where
  "bump_build v =
     \<lparr>major = major v, minor = minor v, patch = patch v, prerelease = prerelease v,
      build = Some (increment_string (case build v of None \<Rightarrow> ''build.0'' | Some b \<Rightarrow> b))\<rparr>"

section \<open>\<^verbatim>\<open>find_pessimistic_upper_bound\<close>\<close>

text \<open>
  The dictionary \<^verbatim>\<open>index_method\<close> of the source, from an index to the bump method bound
  to \<^verbatim>\<open>version_obj\<close>: \<^verbatim>\<open>{0: bump_build, 1: bump_minor, 2: bump_patch, 3: bump_prerelease}\<close>.
\<close>

definition index_method :: "Version \<Rightarrow> nat \<Rightarrow> Version option" where
  "index_method version_obj =
     [0 \<mapsto> bump_build version_obj, 1 \<mapsto> bump_minor version_obj,
      2 \<mapsto> bump_patch version_obj, 3 \<mapsto> bump_prerelease version_obj]"

text \<open>
  The loop \<^verbatim>\<open>for index, value in enumerate(version_tuple)\<close>; the last argument is what
  is left to enumerate. Reading \<^verbatim>\<open>version_tuple[index + 2]\<close> beyond the tuple raises
  \<^verbatim>\<open>IndexError\<close>; a loop that ends without \<^verbatim>\<open>return\<close> makes the function return
  \<^verbatim>\<open>None\<close>.
\<close>

fun upper_bound_loop ::
  "string \<Rightarrow> Version \<Rightarrow> pyval list \<Rightarrow> nat \<Rightarrow> pyval list \<Rightarrow> 'x error + string option" where
  "upper_bound_loop version_string version_obj version_tuple index [] = Inr None"
| "upper_bound_loop version_string version_obj version_tuple index (value # rest) =
     (if index > 3
      then Inl (ValueError
             (''No pessismistic upper bound exists for the provided version '' @ version_string))
      else if length version_tuple \<le> index + 2
      then Inl (IndexError ''tuple index out of range'')
      else if falsy (version_tuple ! (index + 2))
      then (case index_method version_obj index of
              None \<Rightarrow> Inl (KeyError index)
            | Some upper_bound_version_object \<Rightarrow> Inr (Some (Version_str upper_bound_version_object)))
      else upper_bound_loop version_string version_obj version_tuple (index + 1) rest)"

definition find_pessimistic_upper_bound :: "string \<Rightarrow> 'x error + string option" where
  "find_pessimistic_upper_bound version_string =
     (case Version_parse version_string of
        Inl e \<Rightarrow> Inl e
      | Inr version_obj \<Rightarrow>
          upper_bound_loop version_string version_obj (to_tuple version_obj) 0
            (to_tuple version_obj))"


section \<open>The modules that are not among the sources\<close>

text \<open>
  \<^verbatim>\<open>version_specifier.py\<close> imports the class \<^verbatim>\<open>VersionRange\<close> (module
  \<^verbatim>\<open>version_range\<close>) and the function \<^verbatim>\<open>parse_version\<close> (module \<^verbatim>\<open>versions\<close>); neither
  module is among the sources, so they are parameters of the model:
  \<^item> \<open>VersionRange_init text scheme\<close> is the constructor call \<^verbatim>\<open>VersionRange(text, scheme)\<close>;
  \<^item> \<open>VersionRange_contains r v\<close> is \<^verbatim>\<open>v in r\<close>, as a truth value;
  \<^item> \<open>VersionRange_text r\<close> is what \<^verbatim>\<open>str.join\<close> finds in the item \<open>r\<close>: \<open>Some t\<close> when
    \<open>r\<close> is itself a string with the text \<open>t\<close>, the only kind of item that \<^verbatim>\<open>str.join\<close>
    accepts, and \<open>None\<close> when \<open>r\<close> is any other object;
  \<^item> \<open>parse_version s\<close> is \<^verbatim>\<open>parse_version(s)\<close> on a scheme-prefixed version string.

  \<open>'r\<close> is the type of ranges, \<open>'v\<close> of versions, \<open>'x\<close> of the exceptions these raise.
\<close>

record ('r, 'v, 'x) collaborators =
  VersionRange_init :: "string \<Rightarrow> string \<Rightarrow> 'x + 'r"
  VersionRange_contains :: "'r \<Rightarrow> 'v \<Rightarrow> 'x + bool"
  VersionRange_text :: "'r \<Rightarrow> string option"
  parse_version :: "string \<Rightarrow> 'x + 'v"

definition call :: "'x + 'a \<Rightarrow> 'x error + 'a" where
  "call r = (case r of Inl x \<Rightarrow> Inl (Raised x) | Inr a \<Rightarrow> Inr a)"

section \<open>\<^verbatim>\<open>normalized_pessimistic_ranges\<close>\<close>

text \<open>An f-string field holding the result of \<^verbatim>\<open>find_pessimistic_upper_bound\<close>.\<close>

definition fmt :: "string option \<Rightarrow> string" where
  "fmt x = (case x of None \<Rightarrow> ''None'' | Some s \<Rightarrow> s)"

text \<open>
  The result of the first statement, \<^verbatim>\<open>remove_spaces(...)\<close>, is dropped by the source.
  The unpacking \<^verbatim>\<open>_, version = ....split("~>")\<close> raises unless the split has two pieces.
\<close>

definition normalized_pessimistic_ranges ::
  "('r, 'v, 'x) collaborators \<Rightarrow> string \<Rightarrow> 'x error + ('r \<times> 'r)" where
  "normalized_pessimistic_ranges c pessimistic_version_range_string =
     (case str_split ''~>'' pessimistic_version_range_string of
        [_, version] \<Rightarrow>
          (case find_pessimistic_upper_bound version of
             Inl e \<Rightarrow> Inl e
           | Inr upper_bound \<Rightarrow>
               (case call (VersionRange_init c (''>='' @ version) ''semver'') of
                  Inl e \<Rightarrow> Inl e
                | Inr lower \<Rightarrow>
                    (case call (VersionRange_init c (''<'' @ fmt upper_bound) ''semver'') of
                       Inl e \<Rightarrow> Inl e
                     | Inr upper \<Rightarrow> Inr (lower, upper))))
      | _ \<Rightarrow>
          Inl (ValueError (''The version range string '' @ pessimistic_version_range_string
                 @ '' is not valid'')))"

section \<open>\<^verbatim>\<open>VersionSpecifier\<close>\<close>

record 'r VersionSpecifier =
  scheme :: string
  ranges :: "'r list"

text \<open>The loop \<^verbatim>\<open>for version_range in version_ranges\<close>, with the list \<^verbatim>\<open>ranges\<close> built so far.\<close>

fun ranges_loop ::
  "('r, 'v, 'x) collaborators \<Rightarrow> string \<Rightarrow> 'r list \<Rightarrow> string list \<Rightarrow> 'x error + 'r list" where
  "ranges_loop c scheme' ranges' [] = Inr ranges'"
| "ranges_loop c scheme' ranges' (version_range # rest) =
     (if scheme' = ''semver'' \<and> str_in ''~>'' version_range
      then (case normalized_pessimistic_ranges c version_range of
              Inl e \<Rightarrow> Inl e
            | Inr (lower, upper) \<Rightarrow> ranges_loop c scheme' (ranges' @ [lower, upper]) rest)
      else (case call (VersionRange_init c version_range scheme') of
              Inl e \<Rightarrow> Inl e
            | Inr range' \<Rightarrow> ranges_loop c scheme' (ranges' @ [range']) rest))"

definition from_scheme_version_spec_string ::
  "('r, 'v, 'x) collaborators \<Rightarrow> string \<Rightarrow> string \<Rightarrow> 'x error + 'r VersionSpecifier" where
  "from_scheme_version_spec_string c scheme' value =
     (case ranges_loop c scheme' [] (str_split '','' (remove_spaces value)) of
        Inl e \<Rightarrow> Inl e
      | Inr ranges' \<Rightarrow> Inr \<lparr>scheme = scheme', ranges = ranges'\<rparr>)"

definition from_version_spec_string ::
  "('r, 'v, 'x) collaborators \<Rightarrow> string \<Rightarrow> 'x error + 'r VersionSpecifier" where
  "from_version_spec_string c version_spec_string =
     (case str_partition '':'' version_spec_string of
        (scheme', _, version_range_expressions) \<Rightarrow>
          if scheme' = []
          then Inl (ValueError (version_spec_string @ '' is not prefixed by scheme''))
          else if version_range_expressions = []
          then Inl (ValueError (version_spec_string @ '' contains no version range''))
          else from_scheme_version_spec_string c scheme' version_range_expressions)"

text \<open>
  \<^verbatim>\<open>__str__\<close>: \<^verbatim>\<open>",".join(self.ranges)\<close> takes the stored ranges themselves as its
  items. \<^verbatim>\<open>str.join\<close> raises \<^verbatim>\<open>TypeError\<close> at the first item that is not a string.
\<close>

fun join_items ::
  "('r, 'v, 'x) collaborators \<Rightarrow> nat \<Rightarrow> 'r list \<Rightarrow> 'x error + string list" where
  "join_items c i [] = Inr []"
| "join_items c i (r # rs) =
     (case VersionRange_text c r of
        None \<Rightarrow> Inl (TypeError (''sequence item '' @ str_of_nat i
                        @ '': expected str instance, VersionRange found''))
      | Some t \<Rightarrow> (case join_items c (i + 1) rs of Inl e \<Rightarrow> Inl e | Inr ts \<Rightarrow> Inr (t # ts)))"

definition VersionSpecifier_str ::
  "('r, 'v, 'x) collaborators \<Rightarrow> 'r VersionSpecifier \<Rightarrow> 'x error + string" where
  "VersionSpecifier_str c self =
     (case join_items c 0 (ranges self) of
        Inl e \<Rightarrow> Inl e
      | Inr items \<Rightarrow> Inr (scheme self @ '':'' @ str_join '','' items))"

text \<open>
  \<^verbatim>\<open>__contains__\<close>: the argument is a string, parsed first, or a version object. The
  list comprehension tests every range in stored order; \<^verbatim>\<open>all\<close> is taken of the list.
\<close>

datatype 'v version_arg = VStr string | VObj 'v

fun contains_list ::
  "('r, 'v, 'x) collaborators \<Rightarrow> 'v \<Rightarrow> 'r list \<Rightarrow> 'x error + bool list" where
  "contains_list c version [] = Inr []"
| "contains_list c version (version_range # rest) =
     (case call (VersionRange_contains c version_range version) of
        Inl e \<Rightarrow> Inl e
      | Inr b \<Rightarrow> (case contains_list c version rest of Inl e \<Rightarrow> Inl e | Inr bs \<Rightarrow> Inr (b # bs)))"

definition resolve_version ::
  "('r, 'v, 'x) collaborators \<Rightarrow> 'v version_arg \<Rightarrow> 'x error + 'v" where
  "resolve_version c version =
     (case version of VStr s \<Rightarrow> call (parse_version c s) | VObj v \<Rightarrow> Inr v)"

definition VersionSpecifier_contains ::
  "('r, 'v, 'x) collaborators \<Rightarrow> 'r VersionSpecifier \<Rightarrow> 'v version_arg \<Rightarrow> 'x error + bool" where
  "VersionSpecifier_contains c self version =
     (case resolve_version c version of
        Inl e \<Rightarrow> Inl e
      | Inr v \<Rightarrow> (case contains_list c v (ranges self) of
                   Inl e \<Rightarrow> Inl e
                 | Inr bs \<Rightarrow> Inr (list_all (\<lambda>b. b) bs)))"


text \<open>
  The two exceptions that \<^verbatim>\<open>from_version_spec_string\<close> raises itself, on the input \<open>s\<close>:
  the spec's \<^verbatim>\<open>MalformedSpecifierError\<close>.
\<close>

definition MalformedSpecifierError :: "string \<Rightarrow> 'x error \<Rightarrow> bool" where
  "MalformedSpecifierError s e =
     (e = ValueError (s @ '' is not prefixed by scheme'')
      \<or> e = ValueError (s @ '' contains no version range''))"

section \<open>An instance of the missing modules\<close>

text \<open>
  Modelled from the spec: \<^verbatim>\<open>VersionRange\<close> and \<^verbatim>\<open>parse_version\<close>, which are not among the
  sources, for the scheme \<^verbatim>\<open>semver\<close> and release versions (no prerelease, no build
  part), ordered by \<^verbatim>\<open>(major, minor, patch)\<close>. The spec: a range is "an operator plus one
  version, scoped to one scheme"; its construction "parses the leading comparison
  operator (one of ==, !=, <, <=, >, >=; an absent operator defaults to exact match) and
  the remaining version text"; its canonical textual form is the like of \<^verbatim>\<open>">=2.0.0"\<close>.
  A range is an object that the constructor builds, with these as its attributes; it is
  not itself a string. The theorems below hold for every instance; this one runs the
  model on examples.
\<close>

datatype operator = Eq | Ne | Lt | Le | Gt | Ge

type_synonym release = "nat \<times> nat \<times> nat"

record release_range =
  rr_text :: string
  rr_operator :: operator
  rr_version :: release
  rr_scheme :: string

definition split_operator :: "string \<Rightarrow> operator \<times> string" where
  "split_operator t =
     (if startswith t ''>='' then (Ge, drop 2 t)
      else if startswith t ''<='' then (Le, drop 2 t)
      else if startswith t ''=='' then (Eq, drop 2 t)
      else if startswith t ''!='' then (Ne, drop 2 t)
      else if startswith t ''<'' then (Lt, drop 1 t)
      else if startswith t ''>'' then (Gt, drop 1 t)
      else (Eq, t))"

definition release_version :: "string \<Rightarrow> string + release" where
  "release_version t =
     (case (Version_parse t :: unit error + Version) of
        Inl _ \<Rightarrow> Inl (t @ '' is not a version'')
      | Inr v \<Rightarrow>
          if prerelease v = None \<and> build v = None then Inr (major v, minor v, patch v)
          else Inl (t @ '' is not a release''))"

fun release_less :: "release \<Rightarrow> release \<Rightarrow> bool" where
  "release_less (a, b, c) (x, y, z) = (a < x \<or> (a = x \<and> (b < y \<or> (b = y \<and> c < z))))"

fun satisfies :: "operator \<Rightarrow> release \<Rightarrow> release \<Rightarrow> bool" where
  "satisfies Eq v w = (v = w)"
| "satisfies Ne v w = (v \<noteq> w)"
| "satisfies Lt v w = release_less v w"
| "satisfies Le v w = (release_less v w \<or> v = w)"
| "satisfies Gt v w = release_less w v"
| "satisfies Ge v w = (release_less w v \<or> v = w)"

definition release_collaborators :: "(release_range, release, string) collaborators" where
  "release_collaborators =
     \<lparr>VersionRange_init = (\<lambda>text scheme'.
        if scheme' = ''semver''
        then (case split_operator (remove_spaces text) of
                (op, t) \<Rightarrow>
                  (case release_version t of
                     Inl m \<Rightarrow> Inl m
                   | Inr v \<Rightarrow> Inr \<lparr>rr_text = remove_spaces text, rr_operator = op,
                                    rr_version = v, rr_scheme = scheme'\<rparr>))
        else Inl (''unknown scheme '' @ scheme')),
      VersionRange_contains = (\<lambda>r v. Inr (satisfies (rr_operator r) v (rr_version r))),
      VersionRange_text = (\<lambda>r. None),
      parse_version = (\<lambda>s.
        case str_partition '':'' s of
          (scheme', _, t) \<Rightarrow>
            if scheme' = ''semver'' then release_version t
            else Inl (''unknown scheme '' @ scheme'))\<rparr>"


section \<open>Splitting and partitioning\<close>

lemma split_acc_no_token:
  "\<not> str_in sep s \<Longrightarrow> str_split_acc sep acc s = [acc @ s]"
  by (induction s arbitrary: acc) auto

lemma split_acc_tilde_prefix:
  "\<not> str_in ''~>'' P \<Longrightarrow>
     str_split_acc ''~>'' acc (P @ ''~>'' @ V) = (acc @ P) # str_split_acc ''~>'' [] V"
proof (induction P arbitrary: acc)
  case Nil
  show ?case by (simp add: startswith_def)
next
  case (Cons c P)
  from Cons.prems have no: "\<not> startswith (c # P) ''~>''" and rest: "\<not> str_in ''~>'' P"
    by simp_all
  have "\<not> startswith (c # P @ ''~>'' @ V) ''~>''"
    using no by (cases P) (auto simp: startswith_def)
  then show ?case using Cons.IH [OF rest] by simp
qed

lemma split_tilde_prefix:
  "\<not> str_in ''~>'' P \<Longrightarrow> str_split ''~>'' (P @ ''~>'' @ V) = P # str_split ''~>'' V"
  using split_acc_tilde_prefix [of P "[]" V] by (simp add: str_split_def)

lemma split_no_token: "\<not> str_in sep s \<Longrightarrow> str_split sep s = [s]"
  by (simp add: str_split_def split_acc_no_token)

lemma split_acc_nonempty: "str_split_acc sep acc s \<noteq> []"
  by (induction sep acc s rule: str_split_acc.induct) auto

lemma split_acc_token:
  "sep \<noteq> [] \<Longrightarrow> str_in sep s \<Longrightarrow> 2 \<le> length (str_split_acc sep acc s)"
proof (induction s arbitrary: acc)
  case Nil
  then show ?case by simp
next
  case (Cons c cs)
  show ?case
  proof (cases "startswith (c # cs) sep")
    case True
    have "1 \<le> length (str_split_acc sep [] (drop (length sep) (c # cs)))"
      using split_acc_nonempty [of sep "[]" "drop (length sep) (c # cs)"]
      by (cases "str_split_acc sep [] (drop (length sep) (c # cs))") auto
    with True Cons.prems(1) show ?thesis by simp
  next
    case False
    with Cons.prems have "str_in sep cs" by simp
    from Cons.IH [OF Cons.prems(1) this] False show ?thesis by simp
  qed
qed

lemma split_token: "sep \<noteq> [] \<Longrightarrow> str_in sep s \<Longrightarrow> 2 \<le> length (str_split sep s)"
  by (simp add: str_split_def split_acc_token)

section \<open>The pessimistic upper bound\<close>

text \<open>
  The tuple has five entries, so the loop reads \<^verbatim>\<open>version_tuple[2]\<close> (the patch),
  \<^verbatim>\<open>version_tuple[3]\<close> (the prerelease), \<^verbatim>\<open>version_tuple[4]\<close> (the build) and then, at
  index 3, \<^verbatim>\<open>version_tuple[5]\<close>, which does not exist. The test \<^verbatim>\<open>index > 3\<close> is never
  reached.
\<close>

lemma upper_bound_loop_tuple:
  "(upper_bound_loop s v (to_tuple v) 0 (to_tuple v) :: 'x error + string option) =
     (if patch v = 0 then Inr (Some (Version_str (bump_build v)))
      else if falsy (opt_val (prerelease v)) then Inr (Some (Version_str (bump_minor v)))
      else if falsy (opt_val (build v)) then Inr (Some (Version_str (bump_patch v)))
      else Inl (IndexError ''tuple index out of range''))"
  by (simp add: to_tuple_def index_method_def)

lemma find_pessimistic_upper_bound_parsed:
  assumes "Version_match s = Some v"
  shows "(find_pessimistic_upper_bound s :: 'x error + string option) =
     (if patch v = 0 then Inr (Some (Version_str (bump_build v)))
      else if falsy (opt_val (prerelease v)) then Inr (Some (Version_str (bump_minor v)))
      else if falsy (opt_val (build v)) then Inr (Some (Version_str (bump_patch v)))
      else Inl (IndexError ''tuple index out of range''))"
  using assms
  by (simp add: find_pessimistic_upper_bound_def Version_parse_def upper_bound_loop_tuple)

lemma find_pessimistic_upper_bound_no_match:
  assumes "Version_match s = None"
  shows "find_pessimistic_upper_bound s = Inl (ValueError (s @ '' is not valid SemVer string''))"
  using assms by (simp add: find_pessimistic_upper_bound_def Version_parse_def)

lemma find_pessimistic_upper_bound_error:
  assumes "(find_pessimistic_upper_bound s :: 'x error + string option) = Inl e"
  shows "e = ValueError (s @ '' is not valid SemVer string'')
         \<or> e = IndexError ''tuple index out of range''"
proof (cases "Version_match s")
  case None
  with assms show ?thesis by (simp add: find_pessimistic_upper_bound_no_match)
next
  case (Some v)
  from assms show ?thesis
    unfolding find_pessimistic_upper_bound_parsed [OF Some] by (simp split: if_splits)
qed

lemma match_2_0_8:
  "Version_match ''2.0.8'' =
     Some \<lparr>major = 2, minor = 0, patch = 8, prerelease = None, build = None\<rparr>"
  by code_simp

lemma str_bump_minor_2_0_8:
  "Version_str (bump_minor \<lparr>major = 2, minor = 0, patch = 8, prerelease = None, build = None\<rparr>)
     = ''2.1.0''"
  by code_simp

lemma upper_bound_2_0_8: "find_pessimistic_upper_bound ''2.0.8'' = Inr (Some ''2.1.0'')"
  by (simp add: find_pessimistic_upper_bound_parsed [OF match_2_0_8] str_bump_minor_2_0_8
        opt_val_def)

lemma match_empty: "Version_match [] = None"
  by code_simp

section \<open>The pessimistic expansion\<close>

lemma npr_two_pieces:
  "str_split ''~>'' s = [p, version] \<Longrightarrow>
   normalized_pessimistic_ranges c s =
     (case find_pessimistic_upper_bound version of
        Inl e \<Rightarrow> Inl e
      | Inr upper_bound \<Rightarrow>
          (case call (VersionRange_init c (''>='' @ version) ''semver'') of
             Inl e \<Rightarrow> Inl e
           | Inr lower \<Rightarrow>
               (case call (VersionRange_init c (''<'' @ fmt upper_bound) ''semver'') of
                  Inl e \<Rightarrow> Inl e
                | Inr upper \<Rightarrow> Inr (lower, upper))))"
  by (simp add: normalized_pessimistic_ranges_def)

lemma npr_not_two_pieces:
  "length (str_split ''~>'' s) \<noteq> 2 \<Longrightarrow>
   normalized_pessimistic_ranges c s =
     Inl (ValueError (''The version range string '' @ s @ '' is not valid''))"
  by (auto simp: normalized_pessimistic_ranges_def split: list.splits)

lemma npr_empty_operand:
  "str_split ''~>'' s = [p, []] \<Longrightarrow>
   normalized_pessimistic_ranges c s = Inl (ValueError '' is not valid SemVer string'')"
  by (simp add: npr_two_pieces find_pessimistic_upper_bound_no_match [OF match_empty])

lemma split_token_only: "str_split ''~>'' ''~>'' = [[], []]"
  by code_simp

lemma spaces_token_only: "remove_spaces ''~>'' = ''~>''"
  by code_simp

lemma commas_token_only: "str_split '','' ''~>'' = [''~>'']"
  by code_simp

lemma in_token_only: "str_in ''~>'' ''~>''"
  by code_simp

text \<open>
  C7. The expansion splits its input on the token \<^verbatim>\<open>~>\<close>; the split has one piece more
  than the token has occurrences. The expansion raises \<^verbatim>\<open>ValueError\<close> (the spec's
  \<^verbatim>\<open>InvalidRangeError\<close>) whenever the token does not occur exactly once, that is whenever
  the split does not have two pieces, and whenever it occurs once with an empty version
  operand after it, where the exception is the one of \<^verbatim>\<open>Version.parse\<close> on the empty
  string. The expression \<^verbatim>\<open>~>\<close> under scheme \<^verbatim>\<open>semver\<close> raises \<^verbatim>\<open>ValueError\<close>.
\<close>

theorem pessimistic_expansion_invalid:
  "(length (str_split ''~>'' s) \<noteq> 2 \<longrightarrow>
      normalized_pessimistic_ranges c s =
        Inl (ValueError (''The version range string '' @ s @ '' is not valid'')))
   \<and> (str_split ''~>'' s = [p, []] \<longrightarrow>
      normalized_pessimistic_ranges c s = Inl (ValueError '' is not valid SemVer string''))
   \<and> normalized_pessimistic_ranges c ''~>'' = Inl (ValueError '' is not valid SemVer string'')
   \<and> from_scheme_version_spec_string c ''semver'' ''~>'' =
        Inl (ValueError '' is not valid SemVer string'')"
proof (intro conjI impI)
  show "normalized_pessimistic_ranges c ''~>'' = Inl (ValueError '' is not valid SemVer string'')"
    by (rule npr_empty_operand [OF split_token_only])
  then show "from_scheme_version_spec_string c ''semver'' ''~>'' =
      Inl (ValueError '' is not valid SemVer string'')"
    by (simp add: from_scheme_version_spec_string_def spaces_token_only commas_token_only
          in_token_only del: str_in.simps)
qed (simp_all add: npr_not_two_pieces npr_empty_operand)

theorem pessimistic_expansion_invalid_witness:
  "length (str_split ''~>'' ''1.0.0~>2.0.0~>3.0.0'') \<noteq> 2
   \<and> normalized_pessimistic_ranges release_collaborators ''1.0.0~>2.0.0~>3.0.0'' =
       Inl (ValueError ''The version range string 1.0.0~>2.0.0~>3.0.0 is not valid'')
   \<and> str_split ''~>'' ''>=~>'' = [''>='', []]
   \<and> normalized_pessimistic_ranges release_collaborators ''>=~>'' =
       Inl (ValueError '' is not valid SemVer string'')"
proof -
  have a: "length (str_split ''~>'' ''1.0.0~>2.0.0~>3.0.0'') \<noteq> 2"
    by code_simp
  have b: "str_split ''~>'' ''>=~>'' = [''>='', []]"
    by code_simp
  from pessimistic_expansion_invalid [of "''1.0.0~>2.0.0~>3.0.0''" release_collaborators] a
  have "normalized_pessimistic_ranges release_collaborators ''1.0.0~>2.0.0~>3.0.0'' =
       Inl (ValueError ''The version range string 1.0.0~>2.0.0~>3.0.0 is not valid'')"
    by simp
  moreover from pessimistic_expansion_invalid [of "''>=~>''" release_collaborators "''>=''"] b
  have "normalized_pessimistic_ranges release_collaborators ''>=~>'' =
       Inl (ValueError '' is not valid SemVer string'')"
    by simp
  ultimately show ?thesis using a b by simp
qed

text \<open>
  C10. Text before the token \<^verbatim>\<open>~>\<close> is discarded (it is bound to \<^verbatim>\<open>_\<close>): for a prefix \<open>P\<close>
  without the token and every version text \<open>V\<close>, the expansion of \<open>P @ ''~>'' @ V\<close> returns
  a pair of ranges exactly when the expansion of \<open>''~>'' @ V\<close> returns it. When \<open>V\<close> has no
  token the two calls agree also in the exception they raise; when it has one, both raise
  the \<^verbatim>\<open>ValueError\<close> of a split that has more than two pieces.
\<close>

theorem pessimistic_prefix_discarded:
  assumes "\<not> str_in ''~>'' P"
  shows "(normalized_pessimistic_ranges c (P @ ''~>'' @ V) = Inr pair
            \<longleftrightarrow> normalized_pessimistic_ranges c (''~>'' @ V) = Inr pair)
         \<and> (\<not> str_in ''~>'' V \<longrightarrow>
              normalized_pessimistic_ranges c (P @ ''~>'' @ V)
                = normalized_pessimistic_ranges c (''~>'' @ V))
         \<and> (str_in ''~>'' V \<longrightarrow>
              normalized_pessimistic_ranges c (P @ ''~>'' @ V) =
                Inl (ValueError (''The version range string '' @ P @ ''~>'' @ V @ '' is not valid''))
              \<and> normalized_pessimistic_ranges c (''~>'' @ V) =
                Inl (ValueError (''The version range string '' @ ''~>'' @ V @ '' is not valid'')))"
proof -
  have with_prefix: "str_split ''~>'' (P @ ''~>'' @ V) = P # str_split ''~>'' V"
    by (rule split_tilde_prefix [OF assms])
  have without: "str_split ''~>'' (''~>'' @ V) = [] # str_split ''~>'' V"
    using split_tilde_prefix [of "[]" V] by simp
  show ?thesis
  proof (cases "str_in ''~>'' V")
    case False
    then have "str_split ''~>'' V = [V]"
      by (rule split_no_token)
    with with_prefix without
    have "normalized_pessimistic_ranges c (P @ ''~>'' @ V)
            = normalized_pessimistic_ranges c (''~>'' @ V)"
      by (simp add: npr_two_pieces del: append.simps)
    with False show ?thesis by simp
  next
    case True
    have "2 \<le> length (str_split ''~>'' V)"
      by (rule split_token [OF _ True]) simp
    with with_prefix without
    have "length (str_split ''~>'' (P @ ''~>'' @ V)) \<noteq> 2"
      and "length (str_split ''~>'' (''~>'' @ V)) \<noteq> 2"
      by (simp_all del: append.simps)
    then have "normalized_pessimistic_ranges c (P @ ''~>'' @ V) =
                Inl (ValueError (''The version range string '' @ P @ ''~>'' @ V @ '' is not valid''))"
      and "normalized_pessimistic_ranges c (''~>'' @ V) =
                Inl (ValueError (''The version range string '' @ ''~>'' @ V @ '' is not valid''))"
      by (simp_all add: npr_not_two_pieces del: append.simps)
    with True show ?thesis by (simp del: append.simps)
  qed
qed

theorem pessimistic_prefix_discarded_witness:
  "\<not> str_in ''~>'' ''abc'' \<and> \<not> str_in ''~>'' ''2.0.8''
   \<and> normalized_pessimistic_ranges release_collaborators (''abc'' @ ''~>'' @ ''2.0.8'')
       = normalized_pessimistic_ranges release_collaborators (''~>'' @ ''2.0.8'')
   \<and> normalized_pessimistic_ranges release_collaborators (''abc'' @ ''~>'' @ ''2.0.8'')
       = Inr (\<lparr>rr_text = ''>=2.0.8'', rr_operator = Ge, rr_version = (2, 0, 8),
                 rr_scheme = ''semver''\<rparr>,
              \<lparr>rr_text = ''<2.1.0'', rr_operator = Lt, rr_version = (2, 1, 0),
                 rr_scheme = ''semver''\<rparr>)
   \<and> str_in ''~>'' ''1.0.0~>''
   \<and> normalized_pessimistic_ranges release_collaborators (''abc'' @ ''~>'' @ ''1.0.0~>'')
       = Inl (ValueError ''The version range string abc~>1.0.0~> is not valid'')"
proof -
  let ?pair = "(\<lparr>rr_text = ''>=2.0.8'', rr_operator = Ge, rr_version = (2, 0, 8),
                   rr_scheme = ''semver''\<rparr>,
                \<lparr>rr_text = ''<2.1.0'', rr_operator = Lt, rr_version = (2, 1, 0),
                   rr_scheme = ''semver''\<rparr>)"
  have p: "\<not> str_in ''~>'' ''abc''" and v: "\<not> str_in ''~>'' ''2.0.8''"
    and w: "str_in ''~>'' ''1.0.0~>''"
    by code_simp+
  have plain: "normalized_pessimistic_ranges release_collaborators (''~>'' @ ''2.0.8'') = Inr ?pair"
    by code_simp
  from pessimistic_prefix_discarded [OF p, of release_collaborators "''2.0.8''" ?pair] v plain
  have "normalized_pessimistic_ranges release_collaborators (''abc'' @ ''~>'' @ ''2.0.8'')
          = normalized_pessimistic_ranges release_collaborators (''~>'' @ ''2.0.8'')"
    and "normalized_pessimistic_ranges release_collaborators (''abc'' @ ''~>'' @ ''2.0.8'') = Inr ?pair"
    by (simp_all del: append.simps str_in.simps)
  moreover from pessimistic_prefix_discarded [OF p, of release_collaborators "''1.0.0~>''" ?pair] w
  have "normalized_pessimistic_ranges release_collaborators (''abc'' @ ''~>'' @ ''1.0.0~>'')
       = Inl (ValueError ''The version range string abc~>1.0.0~> is not valid'')"
    by (simp del: str_in.simps)
  ultimately show ?thesis using p v w by (simp del: append.simps str_in.simps)
qed

lemma split_token_2_0_8: "str_split ''~>'' ''~>2.0.8'' = [[], ''2.0.8'']"
  by code_simp

lemma spaces_token_2_0_8: "remove_spaces ''~>2.0.8'' = ''~>2.0.8''"
  by code_simp

lemma commas_token_2_0_8: "str_split '','' ''~>2.0.8'' = [''~>2.0.8'']"
  by code_simp

lemma in_token_2_0_8: "str_in ''~>'' ''~>2.0.8''"
  by code_simp

text \<open>
  C3. Under scheme \<^verbatim>\<open>semver\<close> the expression \<^verbatim>\<open>~>2.0.8\<close> yields exactly two ranges, in
  (lower, upper) order: the range that the constructor builds from \<^verbatim>\<open>>=2.0.8\<close> and the
  one it builds from \<^verbatim>\<open><2.1.0\<close>, both with scheme \<^verbatim>\<open>semver\<close>.
\<close>

theorem pessimistic_2_0_8:
  assumes "VersionRange_init c ''>=2.0.8'' ''semver'' = Inr lower"
    and "VersionRange_init c ''<2.1.0'' ''semver'' = Inr upper"
  shows "normalized_pessimistic_ranges c ''~>2.0.8'' = Inr (lower, upper)
         \<and> from_scheme_version_spec_string c ''semver'' ''~>2.0.8''
             = Inr \<lparr>scheme = ''semver'', ranges = [lower, upper]\<rparr>"
proof -
  have pair: "normalized_pessimistic_ranges c ''~>2.0.8'' = Inr (lower, upper)"
    using assms
    by (simp add: npr_two_pieces [OF split_token_2_0_8] upper_bound_2_0_8 fmt_def call_def)
  then have "from_scheme_version_spec_string c ''semver'' ''~>2.0.8''
               = Inr \<lparr>scheme = ''semver'', ranges = [lower, upper]\<rparr>"
    by (simp add: from_scheme_version_spec_string_def spaces_token_2_0_8 commas_token_2_0_8
          in_token_2_0_8 del: str_in.simps)
  with pair show ?thesis by simp
qed

theorem pessimistic_2_0_8_witness:
  "VersionRange_init release_collaborators ''>=2.0.8'' ''semver''
     = Inr \<lparr>rr_text = ''>=2.0.8'', rr_operator = Ge, rr_version = (2, 0, 8), rr_scheme = ''semver''\<rparr>
   \<and> VersionRange_init release_collaborators ''<2.1.0'' ''semver''
     = Inr \<lparr>rr_text = ''<2.1.0'', rr_operator = Lt, rr_version = (2, 1, 0), rr_scheme = ''semver''\<rparr>
   \<and> from_scheme_version_spec_string release_collaborators ''semver'' ''~>2.0.8''
     = Inr \<lparr>scheme = ''semver'',
            ranges = [\<lparr>rr_text = ''>=2.0.8'', rr_operator = Ge, rr_version = (2, 0, 8),
                         rr_scheme = ''semver''\<rparr>,
                      \<lparr>rr_text = ''<2.1.0'', rr_operator = Lt, rr_version = (2, 1, 0),
                         rr_scheme = ''semver''\<rparr>]\<rparr>"
proof -
  have lo: "VersionRange_init release_collaborators ''>=2.0.8'' ''semver''
     = Inr \<lparr>rr_text = ''>=2.0.8'', rr_operator = Ge, rr_version = (2, 0, 8), rr_scheme = ''semver''\<rparr>"
    by code_simp
  have hi: "VersionRange_init release_collaborators ''<2.1.0'' ''semver''
     = Inr \<lparr>rr_text = ''<2.1.0'', rr_operator = Lt, rr_version = (2, 1, 0), rr_scheme = ''semver''\<rparr>"
    by code_simp
  from pessimistic_2_0_8 [OF lo hi] lo hi show ?thesis by simp
qed

text \<open>
  C2. The claim: the component at the position found is incremented and the less
  significant ones are reset. At index 1 the source calls \<^verbatim>\<open>bump_minor\<close> and at index 2
  \<^verbatim>\<open>bump_patch\<close>, but at index 0 (the patch is 0) it calls \<^verbatim>\<open>bump_build\<close>, not
  \<^verbatim>\<open>bump_major\<close>: for \<^verbatim>\<open>2.1.0\<close> the result is \<^verbatim>\<open>2.1.0+build.1\<close>, where incrementing the
  major component gives \<^verbatim>\<open>3.0.0\<close>.
\<close>

theorem upper_bound_2_1_0_bumps_build:
  "(find_pessimistic_upper_bound ''2.1.0'' :: unit error + string option)
     = Inr (Some ''2.1.0+build.1'')
   \<and> Version_match ''2.1.0''
     = Some \<lparr>major = 2, minor = 1, patch = 0, prerelease = None, build = None\<rparr>
   \<and> Version_str (bump_major \<lparr>major = 2, minor = 1, patch = 0, prerelease = None, build = None\<rparr>)
     = ''3.0.0''"
  by code_simp

text \<open>
  C4. The claim: a version with no eligible position fails with the
  \<^verbatim>\<open>ValueError\<close> "No pessismistic upper bound exists ..." (the spec's
  \<^verbatim>\<open>NoPessimisticBoundError\<close>). Such a version has a patch other than 0, a prerelease and
  a build; for it the source reads \<^verbatim>\<open>version_tuple[5]\<close> at index 3 and raises
  \<^verbatim>\<open>IndexError\<close>, before the test \<^verbatim>\<open>index > 3\<close> can hold.
\<close>

theorem upper_bound_maximal_version_index_error:
  "(find_pessimistic_upper_bound ''1.2.3-rc.1+build.5'' :: unit error + string option)
     = Inl (IndexError ''tuple index out of range'')
   \<and> Version_match ''1.2.3-rc.1+build.5''
     = Some \<lparr>major = 1, minor = 2, patch = 3, prerelease = Some ''rc.1'',
              build = Some ''build.5''\<rparr>"
  by code_simp

section \<open>Building a specifier\<close>

lemma ranges_loop_plain:
  "\<forall>e \<in> set es. \<not> str_in ''~>'' e \<Longrightarrow>
   map (\<lambda>e. VersionRange_init c e scheme') es = map Inr rs \<Longrightarrow>
   ranges_loop c scheme' acc es = Inr (acc @ rs)"
proof (induction es arbitrary: acc rs)
  case Nil
  then show ?case by simp
next
  case (Cons e es)
  from Cons.prems(2) obtain r rs' where rs: "rs = r # rs'"
    and r: "VersionRange_init c e scheme' = Inr r"
    and rest: "map (\<lambda>e. VersionRange_init c e scheme') es = map Inr rs'"
    by (cases rs) auto
  from Cons.prems(1) have plain: "\<not> str_in ''~>'' e" and others: "\<forall>e \<in> set es. \<not> str_in ''~>'' e"
    by simp_all
  from Cons.IH [OF others rest, of "acc @ [r]"] plain r rs
  show ?case by (simp add: call_def)
qed

lemma ranges_loop_length:
  "ranges_loop c scheme' acc es = Inr rs \<Longrightarrow>
   length rs = length acc
     + sum_list (map (\<lambda>e. if scheme' = ''semver'' \<and> str_in ''~>'' e then 2 else 1) es)"
proof (induction es arbitrary: acc)
  case Nil
  then show ?case by simp
next
  case (Cons e es)
  show ?case
  proof (cases "scheme' = ''semver'' \<and> str_in ''~>'' e")
    case True
    with Cons.prems obtain lower upper
      where "ranges_loop c scheme' (acc @ [lower, upper]) es = Inr rs"
      by (auto split: sum.splits prod.splits)
    from Cons.IH [OF this] True show ?thesis by simp
  next
    case False
    with Cons.prems obtain r where "ranges_loop c scheme' (acc @ [r]) es = Inr rs"
      by (auto split: sum.splits)
    from Cons.IH [OF this] False show ?thesis by auto
  qed
qed

text \<open>
  C5. The expressions are the pieces of the whitespace-free string between commas. When
  none of them holds the token \<^verbatim>\<open>~>\<close> and the constructor accepts each of them (with
  results \<open>rs\<close>, in input order), the specifier stores exactly these ranges, one for each
  expression. In every specifier that is built, an expression with the token under scheme
  \<^verbatim>\<open>semver\<close> accounts for exactly two stored ranges and every other expression for one.
\<close>

theorem stored_ranges_count:
  "((\<forall>e \<in> set (str_split '','' (remove_spaces value)). \<not> str_in ''~>'' e)
      \<and> map (\<lambda>e. VersionRange_init c e scheme') (str_split '','' (remove_spaces value))
          = map Inr rs
     \<longrightarrow> from_scheme_version_spec_string c scheme' value = Inr \<lparr>scheme = scheme', ranges = rs\<rparr>
         \<and> length rs = length (str_split '','' (remove_spaces value)))
   \<and> (from_scheme_version_spec_string c scheme' value = Inr self
     \<longrightarrow> length (ranges self)
          = sum_list (map (\<lambda>e. if scheme' = ''semver'' \<and> str_in ''~>'' e then 2 else 1)
                      (str_split '','' (remove_spaces value))))"
proof (intro conjI impI)
  assume h: "(\<forall>e \<in> set (str_split '','' (remove_spaces value)). \<not> str_in ''~>'' e)
      \<and> map (\<lambda>e. VersionRange_init c e scheme') (str_split '','' (remove_spaces value))
          = map Inr rs"
  then have "ranges_loop c scheme' [] (str_split '','' (remove_spaces value)) = Inr ([] @ rs)"
    by (intro ranges_loop_plain) simp_all
  then show "from_scheme_version_spec_string c scheme' value
               = Inr \<lparr>scheme = scheme', ranges = rs\<rparr>"
    by (simp add: from_scheme_version_spec_string_def)
  from h show "length rs = length (str_split '','' (remove_spaces value))"
    by (auto dest: map_eq_imp_length_eq)
next
  assume "from_scheme_version_spec_string c scheme' value = Inr self"
  then have "ranges_loop c scheme' [] (str_split '','' (remove_spaces value)) = Inr (ranges self)"
    by (auto simp: from_scheme_version_spec_string_def split: sum.splits)
  from ranges_loop_length [OF this]
  show "length (ranges self)
          = sum_list (map (\<lambda>e. if scheme' = ''semver'' \<and> str_in ''~>'' e then 2 else 1)
                      (str_split '','' (remove_spaces value)))"
    by simp
qed

theorem stored_ranges_count_witness:
  "from_scheme_version_spec_string release_collaborators ''semver'' ''>= 1.0.0, <2.0.0''
     = Inr \<lparr>scheme = ''semver'',
            ranges = [\<lparr>rr_text = ''>=1.0.0'', rr_operator = Ge, rr_version = (1, 0, 0),
                         rr_scheme = ''semver''\<rparr>,
                      \<lparr>rr_text = ''<2.0.0'', rr_operator = Lt, rr_version = (2, 0, 0),
                         rr_scheme = ''semver''\<rparr>]\<rparr>
   \<and> str_split '','' (remove_spaces ''>= 1.0.0, <2.0.0'') = [''>=1.0.0'', ''<2.0.0'']
   \<and> from_scheme_version_spec_string release_collaborators ''semver'' ''~>2.0.8,<3.0.0''
     = Inr \<lparr>scheme = ''semver'',
            ranges = [\<lparr>rr_text = ''>=2.0.8'', rr_operator = Ge, rr_version = (2, 0, 8),
                         rr_scheme = ''semver''\<rparr>,
                      \<lparr>rr_text = ''<2.1.0'', rr_operator = Lt, rr_version = (2, 1, 0),
                         rr_scheme = ''semver''\<rparr>,
                      \<lparr>rr_text = ''<3.0.0'', rr_operator = Lt, rr_version = (3, 0, 0),
                         rr_scheme = ''semver''\<rparr>]\<rparr>
   \<and> sum_list (map (\<lambda>e. if ''semver'' = ''semver'' \<and> str_in ''~>'' e then 2 else 1)
        (str_split '','' (remove_spaces ''~>2.0.8,<3.0.0''))) = (3::nat)"
proof -
  let ?rs = "[\<lparr>rr_text = ''>=1.0.0'', rr_operator = Ge, rr_version = (1, 0, 0),
                 rr_scheme = ''semver''\<rparr>,
              \<lparr>rr_text = ''<2.0.0'', rr_operator = Lt, rr_version = (2, 0, 0),
                 rr_scheme = ''semver''\<rparr>]"
  let ?self = "\<lparr>scheme = ''semver'',
            ranges = [\<lparr>rr_text = ''>=2.0.8'', rr_operator = Ge, rr_version = (2, 0, 8),
                         rr_scheme = ''semver''\<rparr>,
                      \<lparr>rr_text = ''<2.1.0'', rr_operator = Lt, rr_version = (2, 1, 0),
                         rr_scheme = ''semver''\<rparr>,
                      \<lparr>rr_text = ''<3.0.0'', rr_operator = Lt, rr_version = (3, 0, 0),
                         rr_scheme = ''semver''\<rparr>]\<rparr>"
  have exprs: "str_split '','' (remove_spaces ''>= 1.0.0, <2.0.0'') = [''>=1.0.0'', ''<2.0.0'']"
    by code_simp
  have plain: "\<forall>e \<in> set (str_split '','' (remove_spaces ''>= 1.0.0, <2.0.0'')). \<not> str_in ''~>'' e"
    by code_simp
  have accepted: "map (\<lambda>e. VersionRange_init release_collaborators e ''semver'')
                    (str_split '','' (remove_spaces ''>= 1.0.0, <2.0.0'')) = map Inr ?rs"
    by code_simp
  have built: "from_scheme_version_spec_string release_collaborators ''semver'' ''~>2.0.8,<3.0.0''
                 = Inr ?self"
    by code_simp
  from stored_ranges_count
         [of "''>= 1.0.0, <2.0.0''" release_collaborators "''semver''" ?rs ?self] plain accepted
  have a: "from_scheme_version_spec_string release_collaborators ''semver'' ''>= 1.0.0, <2.0.0''
             = Inr \<lparr>scheme = ''semver'', ranges = ?rs\<rparr>"
    by blast
  from stored_ranges_count
         [of "''~>2.0.8,<3.0.0''" release_collaborators "''semver''" ?rs ?self] built
  have b: "sum_list (map (\<lambda>e. if ''semver'' = ''semver'' \<and> str_in ''~>'' e then 2 else 1)
        (str_split '','' (remove_spaces ''~>2.0.8,<3.0.0''))) = (3::nat)"
    by simp
  from a exprs built b show ?thesis by (simp only: simp_thms)
qed

section \<open>Exceptions of the parse\<close>

lemma npr_error_last:
  fixes c :: "('r, 'v, 'x) collaborators"
  assumes "normalized_pessimistic_ranges c s = Inl (ValueError m)"
  shows "last m = CHR ''d'' \<or> last m = CHR ''g''"
proof (cases "length (str_split ''~>'' s) = 2")
  case False
  with assms have "m = (''The version range string '' @ s) @ '' is not valid''"
    by (simp add: npr_not_two_pieces)
  then have "last m = last '' is not valid''"
    by (simp only: last_append) simp
  then show ?thesis by simp
next
  case True
  then obtain p version where pieces: "str_split ''~>'' s = [p, version]"
    by (cases "str_split ''~>'' s" rule: list.exhaust)
       (auto simp: length_Suc_conv numeral_2_eq_2)
  show ?thesis
  proof (cases "find_pessimistic_upper_bound version :: 'x error + string option")
    case (Inl e)
    with assms pieces have "e = ValueError m"
      by (simp add: npr_two_pieces)
    with find_pessimistic_upper_bound_error [OF Inl]
    have "m = version @ '' is not valid SemVer string''"
      by auto
    then have "last m = last '' is not valid SemVer string''"
      by (simp only: last_append) simp
    then show ?thesis by simp
  next
    case (Inr u)
    with assms pieces show ?thesis
      by (auto simp: npr_two_pieces call_def split: sum.splits)
  qed
qed

lemma ranges_loop_error_last:
  "ranges_loop c scheme' acc es = Inl (ValueError m) \<Longrightarrow>
     last m = CHR ''d'' \<or> last m = CHR ''g''"
proof (induction es arbitrary: acc)
  case Nil
  then show ?case by simp
next
  case (Cons e es)
  show ?case
  proof (cases "scheme' = ''semver'' \<and> str_in ''~>'' e")
    case True
    show ?thesis
    proof (cases "normalized_pessimistic_ranges c e")
      case (Inl x)
      with True Cons.prems have "normalized_pessimistic_ranges c e = Inl (ValueError m)"
        by simp
      then show ?thesis by (rule npr_error_last)
    next
      case (Inr pair)
      obtain lower upper where "pair = (lower, upper)"
        by (cases pair) auto
      with Inr True Cons.prems
      have "ranges_loop c scheme' (acc @ [lower, upper]) es = Inl (ValueError m)"
        by simp
      then show ?thesis by (rule Cons.IH)
    qed
  next
    case False
    with Cons.prems obtain r where "ranges_loop c scheme' (acc @ [r]) es = Inl (ValueError m)"
      by (auto simp: call_def split: sum.splits)
    then show ?thesis by (rule Cons.IH)
  qed
qed

lemma from_scheme_not_malformed:
  assumes "from_scheme_version_spec_string c scheme' value = Inl e"
  shows "\<not> MalformedSpecifierError s e"
proof
  assume "MalformedSpecifierError s e"
  then obtain m where e: "e = ValueError m"
    and "m = s @ '' is not prefixed by scheme'' \<or> m = s @ '' contains no version range''"
    by (auto simp: MalformedSpecifierError_def)
  then have "last m = last '' is not prefixed by scheme''
             \<or> last m = last '' contains no version range''"
    by (auto simp only: last_append split: if_splits)
  then have m: "last m = CHR ''e''"
    by simp
  from assms e have "ranges_loop c scheme' [] (str_split '','' (remove_spaces value))
                       = Inl (ValueError m)"
    by (auto simp: from_scheme_version_spec_string_def split: sum.splits)
  from ranges_loop_error_last [OF this] m show False by auto
qed

lemma partition_acc_no_sep:
  "\<not> str_in sep s \<Longrightarrow> str_partition_acc sep acc s = (acc @ s, [], [])"
  by (induction s arbitrary: acc) auto

lemma match_novalue: "str_partition '':'' ''novalue'' = (''novalue'', [], [])"
  by code_simp

text \<open>
  C6. As stated the claim fails: \<^verbatim>\<open>:>=1.0.0\<close> has a \<^verbatim>\<open>:\<close> and a nonempty remainder, and
  the parse raises, by the guard \<^verbatim>\<open>if not scheme\<close>. The parse raises its own exception
  exactly when the text before the first \<^verbatim>\<open>:\<close> is empty or the text after it is empty;
  the remainder of a string without \<^verbatim>\<open>:\<close> is empty, and \<^verbatim>\<open>novalue\<close> raises.
\<close>

theorem malformed_specifier_iff:
  "((\<exists>e. from_version_spec_string c s = Inl e \<and> MalformedSpecifierError s e)
      \<longleftrightarrow> fst (str_partition '':'' s) = [] \<or> snd (snd (str_partition '':'' s)) = [])
   \<and> (\<not> str_in '':'' s \<longrightarrow> snd (snd (str_partition '':'' s)) = [])
   \<and> from_version_spec_string c ''novalue'' = Inl (ValueError ''novalue contains no version range'')"
proof (intro conjI impI)
  obtain scheme' sep rest where parts: "str_partition '':'' s = (scheme', sep, rest)"
    by (cases "str_partition '':'' s") auto
  show "(\<exists>e. from_version_spec_string c s = Inl e \<and> MalformedSpecifierError s e)
      \<longleftrightarrow> fst (str_partition '':'' s) = [] \<or> snd (snd (str_partition '':'' s)) = []"
  proof (cases "scheme' = [] \<or> rest = []")
    case True
    with parts show ?thesis
      by (auto simp: from_version_spec_string_def MalformedSpecifierError_def)
  next
    case False
    with parts have "from_version_spec_string c s = from_scheme_version_spec_string c scheme' rest"
      by (simp add: from_version_spec_string_def)
    with False parts show ?thesis
      by (auto dest: from_scheme_not_malformed)
  qed
next
  assume "\<not> str_in '':'' s"
  then show "snd (snd (str_partition '':'' s)) = []"
    by (simp add: str_partition_def partition_acc_no_sep)
next
  show "from_version_spec_string c ''novalue'' = Inl (ValueError ''novalue contains no version range'')"
    by (simp add: from_version_spec_string_def match_novalue)
qed

theorem malformed_specifier_iff_witness:
  "\<not> str_in '':'' ''novalue''
   \<and> snd (snd (str_partition '':'' ''novalue'')) = []
   \<and> from_version_spec_string release_collaborators ''novalue''
       = Inl (ValueError ''novalue contains no version range'')
   \<and> fst (str_partition '':'' '':>=1.0.0'') = []
   \<and> (\<exists>e. from_version_spec_string release_collaborators '':>=1.0.0'' = Inl e
            \<and> MalformedSpecifierError '':>=1.0.0'' e)"
proof -
  have a: "\<not> str_in '':'' ''novalue''"
    by code_simp
  have b: "fst (str_partition '':'' '':>=1.0.0'') = []"
    by code_simp
  from malformed_specifier_iff [of release_collaborators "''novalue''"] a
  have "snd (snd (str_partition '':'' ''novalue'')) = []"
    and "from_version_spec_string release_collaborators ''novalue''
       = Inl (ValueError ''novalue contains no version range'')"
    by (simp_all del: str_in.simps)
  moreover from malformed_specifier_iff [of release_collaborators "'':>=1.0.0''"] b
  have "\<exists>e. from_version_spec_string release_collaborators '':>=1.0.0'' = Inl e
            \<and> MalformedSpecifierError '':>=1.0.0'' e"
    by simp
  ultimately show ?thesis using a b by (simp only: simp_thms)
qed

theorem malformed_specifier_counterexample:
  "from_version_spec_string release_collaborators '':>=1.0.0''
     = Inl (ValueError '':>=1.0.0 is not prefixed by scheme'')
   \<and> MalformedSpecifierError '':>=1.0.0''
       (ValueError '':>=1.0.0 is not prefixed by scheme'' :: string error)
   \<and> str_in '':'' '':>=1.0.0''
   \<and> snd (snd (str_partition '':'' '':>=1.0.0'')) = ''>=1.0.0''"
  by code_simp

section \<open>The canonical string\<close>

lemma ranges_loop_stores_one:
  assumes "ranges_loop c scheme' acc es = Inr rs" and "es \<noteq> []"
  shows "rs \<noteq> []"
proof -
  from assms(2) obtain e es' where "es = e # es'"
    by (cases es) auto
  with ranges_loop_length [OF assms(1)] have "1 \<le> length rs"
    by (simp split: if_splits)
  then show ?thesis by auto
qed

lemma from_scheme_stores_one:
  assumes "from_scheme_version_spec_string c scheme' value = Inr self"
  shows "ranges self \<noteq> []"
proof -
  from assms
  have "ranges_loop c scheme' [] (str_split '','' (remove_spaces value)) = Inr (ranges self)"
    by (auto simp: from_scheme_version_spec_string_def split: sum.splits)
  then show ?thesis
    by (rule ranges_loop_stores_one) (simp add: str_split_def split_acc_nonempty)
qed

lemma from_version_spec_string_stores_one:
  "from_version_spec_string c s = Inr self \<Longrightarrow> ranges self \<noteq> []"
  by (cases "str_partition '':'' s")
     (auto simp: from_version_spec_string_def split: if_splits dest: from_scheme_stores_one)

lemma str_of_nat_0: "str_of_nat 0 = ''0''"
  by code_simp

lemma join_items_first_not_text:
  "VersionRange_text c r = None \<Longrightarrow>
     join_items c 0 (r # rs)
       = Inl (TypeError ''sequence item 0: expected str instance, VersionRange found'')"
  by (simp add: str_of_nat_0)

text \<open>
  C8. The claim: the rendering returns the scheme, a colon and the canonical texts of the
  stored ranges joined by commas. The source hands the stored ranges themselves to
  \<^verbatim>\<open>str.join\<close>, without \<^verbatim>\<open>str()\<close>. Every specifier that the parse returns stores at least one
  range, and when its ranges are objects other than strings, as the objects that the
  constructor \<^verbatim>\<open>VersionRange(...)\<close> builds are, the rendering raises \<^verbatim>\<open>TypeError\<close> at the
  first item instead of returning a string.
\<close>

theorem canonical_string_type_error:
  assumes "from_version_spec_string c s = Inr self"
    and "\<forall>r \<in> set (ranges self). VersionRange_text c r = None"
  shows "VersionSpecifier_str c self
           = Inl (TypeError ''sequence item 0: expected str instance, VersionRange found'')"
proof -
  from from_version_spec_string_stores_one [OF assms(1)]
  obtain r rs where stored: "ranges self = r # rs"
    by (cases "ranges self") auto
  with assms(2) have "VersionRange_text c r = None"
    by simp
  from join_items_first_not_text [OF this, of rs] stored show ?thesis
    by (simp add: VersionSpecifier_str_def)
qed

theorem canonical_string_type_error_witness:
  "from_version_spec_string release_collaborators ''semver:>=1.0.0,<2.0.0''
     = Inr \<lparr>scheme = ''semver'',
            ranges = [\<lparr>rr_text = ''>=1.0.0'', rr_operator = Ge, rr_version = (1, 0, 0),
                         rr_scheme = ''semver''\<rparr>,
                      \<lparr>rr_text = ''<2.0.0'', rr_operator = Lt, rr_version = (2, 0, 0),
                         rr_scheme = ''semver''\<rparr>]\<rparr>
   \<and> VersionSpecifier_str release_collaborators
        \<lparr>scheme = ''semver'',
         ranges = [\<lparr>rr_text = ''>=1.0.0'', rr_operator = Ge, rr_version = (1, 0, 0),
                      rr_scheme = ''semver''\<rparr>,
                   \<lparr>rr_text = ''<2.0.0'', rr_operator = Lt, rr_version = (2, 0, 0),
                      rr_scheme = ''semver''\<rparr>]\<rparr>
       = Inl (TypeError ''sequence item 0: expected str instance, VersionRange found'')"
proof -
  let ?lo = "\<lparr>rr_text = ''>=1.0.0'', rr_operator = Ge, rr_version = (1, 0, 0), rr_scheme = ''semver''\<rparr>"
  let ?hi = "\<lparr>rr_text = ''<2.0.0'', rr_operator = Lt, rr_version = (2, 0, 0), rr_scheme = ''semver''\<rparr>"
  let ?self = "\<lparr>scheme = ''semver'', ranges = [?lo, ?hi]\<rparr>"
  have parsed: "from_version_spec_string release_collaborators ''semver:>=1.0.0,<2.0.0'' = Inr ?self"
    by code_simp
  have objects: "\<forall>r \<in> set (ranges ?self). VersionRange_text release_collaborators r = None"
    by (simp add: release_collaborators_def)
  from canonical_string_type_error [OF parsed objects] parsed show ?thesis
    by (simp only: simp_thms)
qed

section \<open>Containment\<close>

lemma contains_list_all_true:
  "(\<exists>bs. contains_list c v rs = Inr bs \<and> list_all (\<lambda>b. b) bs) \<longleftrightarrow>
     (\<forall>r \<in> set rs. VersionRange_contains c r v = Inr True)"
  by (induction rs) (auto simp: call_def split: sum.splits)

lemma contains_true_iff:
  "VersionSpecifier_contains c self version = Inr True \<longleftrightarrow>
     (\<exists>v. resolve_version c version = Inr v \<and>
          (\<exists>bs. contains_list c v (ranges self) = Inr bs \<and> list_all (\<lambda>b. b) bs))"
  by (auto simp: VersionSpecifier_contains_def split: sum.splits)



text \<open>
  C9. Containment is monotonic under AND: a version contained in the specifier with one
  more range appended to the stored sequence is contained in the specifier itself.
\<close>

theorem contains_monotonic:
  assumes "VersionSpecifier_contains c (self\<lparr>ranges := ranges self @ [r]\<rparr>) version = Inr True"
  shows "VersionSpecifier_contains c self version = Inr True"
  using assms unfolding contains_true_iff contains_list_all_true by auto

theorem contains_monotonic_witness:
  "VersionSpecifier_contains release_collaborators
     (\<lparr>scheme = ''semver'',
       ranges = [\<lparr>rr_text = ''>=1.0.0'', rr_operator = Ge, rr_version = (1, 0, 0),
                    rr_scheme = ''semver''\<rparr>]\<rparr>
      \<lparr>ranges := ranges \<lparr>scheme = ''semver'',
                  ranges = [\<lparr>rr_text = ''>=1.0.0'', rr_operator = Ge, rr_version = (1, 0, 0),
                               rr_scheme = ''semver''\<rparr>]\<rparr>
                @ [\<lparr>rr_text = ''<2.0.0'', rr_operator = Lt, rr_version = (2, 0, 0),
                      rr_scheme = ''semver''\<rparr>]\<rparr>)
     (VObj (1, 5, 0)) = Inr True
   \<and> VersionSpecifier_contains release_collaborators
        \<lparr>scheme = ''semver'',
         ranges = [\<lparr>rr_text = ''>=1.0.0'', rr_operator = Ge, rr_version = (1, 0, 0),
                      rr_scheme = ''semver''\<rparr>]\<rparr>
        (VObj (1, 5, 0)) = Inr True"
proof -
  let ?lo = "\<lparr>rr_text = ''>=1.0.0'', rr_operator = Ge, rr_version = (1, 0, 0), rr_scheme = ''semver''\<rparr>"
  let ?hi = "\<lparr>rr_text = ''<2.0.0'', rr_operator = Lt, rr_version = (2, 0, 0), rr_scheme = ''semver''\<rparr>"
  let ?S = "\<lparr>scheme = ''semver'', ranges = [?lo]\<rparr>"
  have h: "VersionSpecifier_contains release_collaborators
             (?S\<lparr>ranges := ranges ?S @ [?hi]\<rparr>) (VObj (1, 5, 0)) = Inr True"
    by code_simp
  from contains_monotonic [OF h] h show ?thesis by simp
qed

end
